theory Spec2Isabelle
  imports Main
begin

section \<open>The deny stage of the flow engine\<close>

text \<open>
  The development embeds \<^verbatim>\<open>authentik/stages/deny/stage.py\<close>:
  \<^verbatim>\<open>
  class DenyStageView(StageView):
      def dispatch(self, request: HttpRequest) -> HttpResponse:
          evaluator = PolicyEvaluator("deny")
          template = f'ak_message("{message}");return False'
          try:
              evaluator.evaluate(template)
          except PolicyException as exc:
              self.logger.warning(f'Failed to evaluate "{template}"', exc=exc)

          self.logger.warning(message)
          return self.executor.stage_invalid()
  \<close>
  Exceptions are values of a sum type, the calls made to the collaborators are recorded
  in an event list, and the name \<^verbatim>\<open>message\<close> is resolved at run time in the module
  namespace, as Python resolves a name that the function neither takes as a parameter
  nor assigns.
\<close>

subsection \<open>Python values and exceptions\<close>

text \<open>
  The values a global name can be bound to: strings, booleans, \<^verbatim>\<open>None\<close>, and any other
  object, known by its identity.
\<close>

datatype pyval = PyStr string | PyBool bool | PyNone | PyObj nat

text \<open>
  An exception instance: the method resolution order of its class (the class first, then
  its bases) and its text. \<^verbatim>\<open>except C\<close> matches an instance whose class has \<^verbatim>\<open>C\<close> in its
  method resolution order.
\<close>

datatype exc = Exc (exc_mro: "string list") (exc_text: string)

definition isinstance :: "exc \<Rightarrow> string \<Rightarrow> bool" where
  "isinstance e c = (c \<in> set (exc_mro e))"

definition NameError :: "string \<Rightarrow> exc" where
  "NameError n =
     Exc [''NameError'', ''Exception'', ''BaseException'', ''object'']
         (''name '' @ [CHR 0x27] @ n @ [CHR 0x27] @ '' is not defined'')"

subsection \<open>The collaborators and the namespaces\<close>

text \<open>
  What \<^verbatim>\<open>dispatch\<close> finds around it when it is called. The module namespace and the
  builtins are dictionaries from names to values. The policy evaluator
  (\<^verbatim>\<open>authentik.policies.expression.evaluator\<close>), the formatting of objects that are not
  strings and the flow executor are not part of the file: their behaviour is a
  parameter. \<open>evaluate name src\<close> is what \<^verbatim>\<open>PolicyEvaluator(name).evaluate(src)\<close> does: it
  returns a value or raises. \<open>stage_invalid\<close> is what the executor's callback does.
\<close>

record 'r env =
  globals :: "string \<rightharpoonup> pyval"
  builtins :: "string \<rightharpoonup> pyval"
  obj_format :: "nat \<Rightarrow> exc + string"
  evaluate :: "string \<Rightarrow> string \<Rightarrow> exc + pyval"
  stage_invalid :: "exc + 'r"

text \<open>
  The attributes that the base class \<^verbatim>\<open>StageView\<close> gives the view: references to the
  flow executor and to the logger.
\<close>

record DenyStageView =
  executor :: nat
  logger :: nat

datatype evaluator = PolicyEvaluator (ev_id: nat) (policy_name: string)

text \<open>The calls that reach a collaborator, with their arguments.\<close>

datatype event =
    Construct evaluator
  | Evaluate evaluator string
  | LogWarning nat pyval "exc option"
  | StageInvalid nat

text \<open>
  The state a call runs in: the next free object identity, the attributes of the view
  that \<^verbatim>\<open>self\<close> refers to, and the calls made so far.
\<close>

record state =
  next_id :: nat
  self :: DenyStageView
  events :: "event list"

subsection \<open>Statements that may raise\<close>

type_synonym 'a run = "state \<Rightarrow> (exc + 'a) \<times> state"

definition ret :: "'a \<Rightarrow> 'a run" where
  "ret x s = (Inr x, s)"

definition lift :: "exc + 'a \<Rightarrow> 'a run" where
  "lift r s = (r, s)"

definition bind ::
  "'a run \<Rightarrow> ('a \<Rightarrow> 'b run) \<Rightarrow> 'b run" where
  "bind m f s = (case m s of (Inl e, s') \<Rightarrow> (Inl e, s') | (Inr x, s') \<Rightarrow> f x s')"

text \<open>
  \<^verbatim>\<open>try: body  except cls as exc: handler\<close>. An exception of another class leaves the
  statement as it came.
\<close>

definition try_except ::
  "'a run \<Rightarrow> string \<Rightarrow> (exc \<Rightarrow> 'a run) \<Rightarrow> 'a run" where
  "try_except body cls handler s =
     (case body s of
        (Inl e, s') \<Rightarrow> if isinstance e cls then handler e s' else (Inl e, s')
      | (Inr x, s') \<Rightarrow> (Inr x, s'))"

definition emit :: "event \<Rightarrow> state \<Rightarrow> state" where
  "emit ev s = s\<lparr>events := events s @ [ev]\<rparr>"

definition getattr_self :: "(DenyStageView \<Rightarrow> 'a) \<Rightarrow> 'a run" where
  "getattr_self field s = (Inr (field (self s)), s)"

subsection \<open>Name lookup and the f-string\<close>

text \<open>
  A name that is not local to the function is looked up in the module namespace, then in
  the builtins, and is a \<^verbatim>\<open>NameError\<close> when neither binds it.
\<close>

definition load_global :: "'r env \<Rightarrow> string \<Rightarrow> exc + pyval" where
  "load_global w n =
     (case globals w n of
        Some v \<Rightarrow> Inr v
      | None \<Rightarrow> (case builtins w n of Some v \<Rightarrow> Inr v | None \<Rightarrow> Inl (NameError n)))"

text \<open>\<^verbatim>\<open>format(v, "")\<close>, which a replacement field of an f-string applies to its value.\<close>

fun py_format :: "'r env \<Rightarrow> pyval \<Rightarrow> exc + string" where
  "py_format w (PyStr s) = Inr s"
| "py_format w (PyBool b) = Inr (if b then ''True'' else ''False'')"
| "py_format w PyNone = Inr ''None''"
| "py_format w (PyObj a) = obj_format w a"

text \<open>The text of \<^verbatim>\<open>f'ak_message("{message}");return False'\<close> for a formatted message.\<close>

definition template_of :: "string \<Rightarrow> string" where
  "template_of m = ''ak_message(\"'' @ m @ ''\");return False''"

definition fstring_template :: "'r env \<Rightarrow> exc + string" where
  "fstring_template w =
     (case load_global w ''message'' of
        Inl e \<Rightarrow> Inl e
      | Inr v \<Rightarrow> (case py_format w v of Inl e \<Rightarrow> Inl e | Inr m \<Rightarrow> Inr (template_of m)))"

text \<open>The text of \<^verbatim>\<open>f'Failed to evaluate "{template}"'\<close>.\<close>

definition failed_to_evaluate :: "string \<Rightarrow> string" where
  "failed_to_evaluate template = ''Failed to evaluate \"'' @ template @ ''\"''"

subsection \<open>Calls to the collaborators\<close>

text \<open>
  Modelled from the spec: the constructor of \<^verbatim>\<open>PolicyEvaluator\<close> is not part of the file.
  The spec says that the handler instantiates a policy evaluator and names no failure of
  the instantiation: the call allocates a new object and returns it.
\<close>

definition new_PolicyEvaluator :: "string \<Rightarrow> evaluator run" where
  "new_PolicyEvaluator name s =
     (let ev = PolicyEvaluator (next_id s) name
      in (Inr ev, emit (Construct ev) (s\<lparr>next_id := Suc (next_id s)\<rparr>)))"

definition evaluator_evaluate :: "'r env \<Rightarrow> evaluator \<Rightarrow> string \<Rightarrow> pyval run" where
  "evaluator_evaluate w ev src s = (evaluate w (policy_name ev) src, emit (Evaluate ev src) s)"

text \<open>
  Modelled from the spec: the logger is not part of the file. The spec's logging sink
  accepts the severity, the message and an optional cause, and never throws.
\<close>

definition logger_warning :: "nat \<Rightarrow> pyval \<Rightarrow> exc option \<Rightarrow> unit run" where
  "logger_warning lg msg cause s = (Inr (), emit (LogWarning lg msg cause) s)"

definition executor_stage_invalid :: "'r env \<Rightarrow> nat \<Rightarrow> 'r run" where
  "executor_stage_invalid w ex s = (stage_invalid w, emit (StageInvalid ex) s)"

subsection \<open>dispatch\<close>

definition dispatch :: "'r env \<Rightarrow> 'q \<Rightarrow> 'r run" where
  "dispatch w request =
     bind (new_PolicyEvaluator ''deny'') (\<lambda>evaluator.
     bind (lift (fstring_template w)) (\<lambda>template.
     bind (try_except
             (bind (evaluator_evaluate w evaluator template) (\<lambda>_. ret ()))
             ''PolicyException''
             (\<lambda>exc.
                bind (getattr_self logger) (\<lambda>lg.
                logger_warning lg (PyStr (failed_to_evaluate template)) (Some exc)))) (\<lambda>_.
     bind (getattr_self logger) (\<lambda>lg.
     bind (lift (load_global w ''message'')) (\<lambda>message.
     bind (logger_warning lg message None) (\<lambda>_.
     bind (getattr_self executor) (\<lambda>ex.
     executor_stage_invalid w ex)))))))"

text \<open>
  How an invocation ends, and the calls it made: the events it added to those of the
  state it started in.
\<close>

definition outcome :: "'r env \<Rightarrow> 'q \<Rightarrow> state \<Rightarrow> exc + 'r" where
  "outcome w request s = fst (dispatch w request s)"

definition calls :: "'r env \<Rightarrow> 'q \<Rightarrow> state \<Rightarrow> event list" where
  "calls w request s = drop (length (events s)) (events (snd (dispatch w request s)))"

subsection \<open>The names the file binds\<close>

text \<open>
  The module namespace when the module has been imported: the attributes every module
  has, the five imported names and the class.
\<close>

definition module_namespace :: "(string \<times> pyval) list" where
  "module_namespace =
     [(''__name__'', PyStr ''authentik.stages.deny.stage''),
      (''__doc__'', PyStr ''Deny stage logic''),
      (''__package__'', PyStr ''authentik.stages.deny''),
      (''__loader__'', PyObj 1),
      (''__spec__'', PyObj 2),
      (''__file__'', PyStr ''authentik/stages/deny/stage.py''),
      (''__cached__'', PyNone),
      (''__builtins__'', PyObj 3),
      (''HttpRequest'', PyObj 4),
      (''HttpResponse'', PyObj 5),
      (''StageView'', PyObj 6),
      (''PolicyException'', PyObj 7),
      (''PolicyEvaluator'', PyObj 8),
      (''DenyStageView'', PyObj 9)]"

definition module_bindings :: "string list" where
  "module_bindings = map fst module_namespace"

text \<open>
  The parameters of \<^verbatim>\<open>dispatch\<close>, the names it assigns, and the names bound in the class
  body.
\<close>

definition dispatch_params :: "string list" where
  "dispatch_params = [''self'', ''request'']"

definition dispatch_locals :: "string list" where
  "dispatch_locals = [''evaluator'', ''template'', ''exc'']"

definition class_bindings :: "string list" where
  "class_bindings = [''__module__'', ''__qualname__'', ''__doc__'', ''dispatch'']"

text \<open>
  The module as the file writes it: the module namespace binds the names of the file and
  no other, and \<^verbatim>\<open>message\<close> is not a builtin.
\<close>

definition as_written :: "'r env \<Rightarrow> bool" where
  "as_written w = (dom (globals w) = set module_bindings \<and> builtins w ''message'' = None)"

subsection \<open>String literals of the expression source\<close>

text \<open>
  The evaluator compiles the template as source text. There a string literal opened by a
  double quote runs to the next double quote that no backslash escapes, and holds no line
  break. \<open>scan_literal\<close> reads the text after the opening quote and gives the literal's
  text and what follows its closing quote.
\<close>

fun scan_literal :: "string \<Rightarrow> (string \<times> string) option" where
  "scan_literal [] = None"
| "scan_literal (c # cs) =
     (if c = CHR 0x22 then Some ([], cs)
      else if c = CHR 0x0A \<or> c = CHR 0x0D then None
      else if c = CHR 0x5C then
        (case cs of
           [] \<Rightarrow> None
         | d # ds \<Rightarrow> map_option (\<lambda>(body, rest). (c # d # body, rest)) (scan_literal ds))
      else map_option (\<lambda>(body, rest). (c # body, rest)) (scan_literal cs))"

text \<open>
  The argument of a source text that starts \<^verbatim>\<open>ak_message("\<close>: the literal and the rest of
  the source.
\<close>

definition string_argument :: "string \<Rightarrow> (string \<times> string) option" where
  "string_argument src =
     (if take 12 src = ''ak_message(\"'' then scan_literal (drop 12 src) else None)"

text \<open>
  The message is data in the template when the literal is the message and the source goes
  on as the template wrote it: the call is closed and \<^verbatim>\<open>return False\<close> follows.
\<close>

definition message_is_data :: "string \<Rightarrow> bool" where
  "message_is_data m = (string_argument (template_of m) = Some (m, '');return False''))"

subsection \<open>The evaluator of the spec\<close>

text \<open>
  What compiling and executing an expression source does: it produces a value, the source
  is malformed, it refers to an unbound name, it raises during execution, or it exceeds
  its budget.
\<close>

datatype execution =
    Produces pyval
  | Malformed
  | Unbound string
  | RaisesError exc
  | OverBudget

datatype failure_class = CompileError | ReferenceError | RuntimeError | BudgetExceeded

text \<open>
  Modelled from the spec: the policy evaluator is not part of the file. The spec's
  \<^verbatim>\<open>evaluate\<close> returns the value the expression produced, or reports a failure of one of
  four classes: compilation or syntax failure, undefined-variable or reference failure,
  runtime exception raised by the expression itself, and budget exceeded.
\<close>

fun classify :: "execution \<Rightarrow> failure_class + pyval" where
  "classify (Produces v) = Inr v"
| "classify Malformed = Inl CompileError"
| "classify (Unbound n) = Inl ReferenceError"
| "classify (RaisesError x) = Inl RuntimeError"
| "classify OverBudget = Inl BudgetExceeded"

fun class_name :: "failure_class \<Rightarrow> string" where
  "class_name CompileError = ''CompileError''"
| "class_name ReferenceError = ''ReferenceError''"
| "class_name RuntimeError = ''RuntimeError''"
| "class_name BudgetExceeded = ''BudgetExceeded''"

fun cause_text :: "execution \<Rightarrow> string" where
  "cause_text (Produces v) = []"
| "cause_text Malformed = ''invalid syntax''"
| "cause_text (Unbound n) = n"
| "cause_text (RaisesError x) = exc_text x"
| "cause_text OverBudget = ''budget exceeded''"

text \<open>
  Modelled from the spec: every failure of the evaluator is caught at the call site, and
  the evaluator lets no other exception pass. The call site catches \<^verbatim>\<open>PolicyException\<close>,
  so a classified failure reaches it as an instance of the subclass of
  \<^verbatim>\<open>PolicyException\<close> that is named after its class, with the cause as its text.
\<close>

definition classified :: "failure_class \<Rightarrow> string \<Rightarrow> exc" where
  "classified c cause =
     Exc [class_name c, ''PolicyException'', ''Exception'', ''BaseException'', ''object''] cause"

definition spec_evaluate :: "(string \<Rightarrow> execution) \<Rightarrow> string \<Rightarrow> string \<Rightarrow> exc + pyval" where
  "spec_evaluate run name src =
     (case classify (run src) of
        Inr v \<Rightarrow> Inr v
      | Inl c \<Rightarrow> Inl (classified c (cause_text (run src))))"

subsection \<open>Example runs\<close>

datatype http_response = HttpResponse nat string

definition PolicyException :: "string \<Rightarrow> exc" where
  "PolicyException txt =
     Exc [''PolicyException'', ''Exception'', ''BaseException'', ''object''] txt"

definition ZeroDivisionError :: exc where
  "ZeroDivisionError =
     Exc [''ZeroDivisionError'', ''ArithmeticError'', ''Exception'', ''BaseException'',
          ''object''] ''division by zero''"

definition KeyError :: "string \<Rightarrow> exc" where
  "KeyError k =
     Exc [''KeyError'', ''LookupError'', ''Exception'', ''BaseException'', ''object''] k"

text \<open>
  The module as written, with an evaluator that returns \<^verbatim>\<open>False\<close> and an executor that
  answers with a response.
\<close>

definition env_written :: "http_response env" where
  "env_written =
     \<lparr>globals = map_of module_namespace,
      builtins = map_of [(''str'', PyObj 20), (''len'', PyObj 21), (''print'', PyObj 22)],
      obj_format = (\<lambda>a. Inr ''<object>''),
      evaluate = (\<lambda>name src. Inr (PyBool False)),
      stage_invalid = Inr (HttpResponse 200 ''stage invalid'')\<rparr>"

text \<open>
  The same module after \<^verbatim>\<open>message\<close> has been bound in its namespace to a value, with an
  evaluator that ends as \<open>r\<close> says.
\<close>

definition env_bound :: "pyval \<Rightarrow> (exc + pyval) \<Rightarrow> http_response env" where
  "env_bound v r =
     env_written\<lparr>globals := (globals env_written)(''message'' \<mapsto> v),
                 evaluate := (\<lambda>name src. r)\<rparr>"




definition state0 :: state where
  "state0 = \<lparr>next_id = 100, self = \<lparr>executor = 10, logger = 11\<rparr>, events = []\<rparr>"

section \<open>The ways an invocation can go\<close>

lemmas run_defs = dispatch_def bind_def try_except_def lift_def ret_def getattr_self_def
  logger_warning_def executor_stage_invalid_def evaluator_evaluate_def new_PolicyEvaluator_def
  emit_def Let_def

lemmas example_defs = env_bound_def env_written_def state0_def module_namespace_def
  fstring_template_def load_global_def PolicyException_def ZeroDivisionError_def
  KeyError_def NameError_def isinstance_def

lemma fstring_template_Inr:
  "fstring_template w = Inr t \<Longrightarrow>
   \<exists>v m. load_global w ''message'' = Inr v \<and> py_format w v = Inr m \<and> t = template_of m"
  by (auto simp: fstring_template_def split: sum.splits)

lemma dispatch_template_raises:
  "fstring_template w = Inl e \<Longrightarrow>
   dispatch w q s =
     (Inl e, s\<lparr>next_id := Suc (next_id s),
              events := events s @ [Construct (PolicyEvaluator (next_id s) ''deny'')]\<rparr>)"
  by (simp add: run_defs)

lemma dispatch_evaluate_raises:
  "fstring_template w = Inr t \<Longrightarrow> evaluate w ''deny'' t = Inl e \<Longrightarrow>
   \<not> isinstance e ''PolicyException'' \<Longrightarrow>
   dispatch w q s =
     (Inl e, s\<lparr>next_id := Suc (next_id s),
              events := events s @
                [Construct (PolicyEvaluator (next_id s) ''deny''),
                 Evaluate (PolicyEvaluator (next_id s) ''deny'') t]\<rparr>)"
  by (simp add: run_defs)

lemma dispatch_evaluate_caught:
  "fstring_template w = Inr t \<Longrightarrow> load_global w ''message'' = Inr v \<Longrightarrow>
   evaluate w ''deny'' t = Inl e \<Longrightarrow> isinstance e ''PolicyException'' \<Longrightarrow>
   dispatch w q s =
     (stage_invalid w,
      s\<lparr>next_id := Suc (next_id s),
        events := events s @
          [Construct (PolicyEvaluator (next_id s) ''deny''),
           Evaluate (PolicyEvaluator (next_id s) ''deny'') t,
           LogWarning (logger (self s)) (PyStr (failed_to_evaluate t)) (Some e),
           LogWarning (logger (self s)) v None,
           StageInvalid (executor (self s))]\<rparr>)"
  by (simp add: run_defs)

lemma dispatch_evaluate_returns:
  "fstring_template w = Inr t \<Longrightarrow> load_global w ''message'' = Inr v \<Longrightarrow>
   evaluate w ''deny'' t = Inr x \<Longrightarrow>
   dispatch w q s =
     (stage_invalid w,
      s\<lparr>next_id := Suc (next_id s),
        events := events s @
          [Construct (PolicyEvaluator (next_id s) ''deny''),
           Evaluate (PolicyEvaluator (next_id s) ''deny'') t,
           LogWarning (logger (self s)) v None,
           StageInvalid (executor (self s))]\<rparr>)"
  by (simp add: run_defs)

text \<open>
  The evaluator of the spec raises instances of \<^verbatim>\<open>PolicyException\<close> only.
\<close>

lemma spec_evaluate_raises_policy_exception:
  "spec_evaluate run name src = Inl e \<Longrightarrow> isinstance e ''PolicyException''"
  by (auto simp: spec_evaluate_def classified_def isinstance_def split: sum.splits)

section \<open>The claims\<close>

text \<open>
  C1. Every invocation of \<^verbatim>\<open>dispatch\<close> that returns, returns the response that the
  executor's \<^verbatim>\<open>stage_invalid\<close> produced, and that call is the last one it made, whether
  the evaluation returned or raised a \<^verbatim>\<open>PolicyException\<close>.
\<close>

theorem dispatch_returns_stage_invalid_response:
  assumes "outcome w q s = Inr r"
  shows "stage_invalid w = Inr r \<and> last (calls w q s) = StageInvalid (executor (self s))"
proof (cases "fstring_template w")
  case (Inl e)
  from dispatch_template_raises [OF this, of q s] assms show ?thesis
    by (simp add: outcome_def)
next
  case (Inr t)
  then obtain v where v: "load_global w ''message'' = Inr v"
    using fstring_template_Inr by blast
  show ?thesis
  proof (cases "evaluate w ''deny'' t")
    case (Inr x)
    from dispatch_evaluate_returns [OF \<open>fstring_template w = Inr t\<close> v this, of q s] assms
    show ?thesis by (simp add: outcome_def calls_def)
  next
    case (Inl e)
    show ?thesis
    proof (cases "isinstance e ''PolicyException''")
      case True
      from dispatch_evaluate_caught [OF \<open>fstring_template w = Inr t\<close> v Inl True, of q s] assms
      show ?thesis by (simp add: outcome_def calls_def)
    next
      case False
      from dispatch_evaluate_raises [OF \<open>fstring_template w = Inr t\<close> Inl False, of q s] assms
      show ?thesis by (simp add: outcome_def)
    qed
  qed
qed

theorem dispatch_returns_stage_invalid_response_witness:
  "outcome (env_bound (PyStr ''Access denied'') (Inl (PolicyException ''denied''))) ''GET /flow'' state0
     = Inr (HttpResponse 200 ''stage invalid'')
   \<and> stage_invalid (env_bound (PyStr ''Access denied'') (Inl (PolicyException ''denied'')))
     = Inr (HttpResponse 200 ''stage invalid'')
   \<and> last (calls (env_bound (PyStr ''Access denied'') (Inl (PolicyException ''denied''))) ''GET /flow'' state0)
     = StageInvalid 10
   \<and> outcome (env_bound (PyStr ''Access denied'') (Inr (PyBool False))) ''GET /flow'' state0
     = Inr (HttpResponse 200 ''stage invalid'')
   \<and> last (calls (env_bound (PyStr ''Access denied'') (Inr (PyBool False))) ''GET /flow'' state0)
     = StageInvalid 10"
proof -
  have a: "outcome (env_bound (PyStr ''Access denied'') (Inl (PolicyException ''denied''))) ''GET /flow'' state0
     = Inr (HttpResponse 200 ''stage invalid'')"
    by (simp add: outcome_def run_defs example_defs)
  have b: "outcome (env_bound (PyStr ''Access denied'') (Inr (PyBool False))) ''GET /flow'' state0
     = Inr (HttpResponse 200 ''stage invalid'')"
    by (simp add: outcome_def run_defs example_defs)
  from a b dispatch_returns_stage_invalid_response [OF a]
    dispatch_returns_stage_invalid_response [OF b]
  show ?thesis by (simp add: state0_def)
qed



text \<open>
  The module namespace of the file does not bind \<^verbatim>\<open>message\<close>, so the lookup fails.
\<close>

lemma as_written_unbound:
  assumes "as_written w"
  shows "load_global w ''message'' = Inl (NameError ''message'')"
proof -
  have "''message'' \<notin> set module_bindings"
    by (simp add: module_bindings_def module_namespace_def)
  with assms have "globals w ''message'' = None"
    by (auto simp: as_written_def)
  with assms show ?thesis
    by (simp add: load_global_def as_written_def)
qed

text \<open>
  C3. \<^verbatim>\<open>message\<close> is no parameter and no local of \<^verbatim>\<open>dispatch\<close>, no name of the class
  body and no name of the module. With the module as the file writes it, every
  invocation ends in the \<^verbatim>\<open>NameError\<close> for \<^verbatim>\<open>message\<close>, raised while the template is
  built: the evaluator has been constructed and nothing else has been called, so the
  \<^verbatim>\<open>try\<close> statement is never entered.
\<close>

theorem message_is_unbound_as_written:
  assumes "as_written w"
  shows "''message'' \<notin> set dispatch_params \<union> set dispatch_locals \<union> set class_bindings
           \<union> set module_bindings
    \<and> outcome w q s = Inl (NameError ''message'')
    \<and> calls w q s = [Construct (PolicyEvaluator (next_id s) ''deny'')]"
proof -
  have names: "''message'' \<notin> set dispatch_params \<union> set dispatch_locals \<union> set class_bindings
           \<union> set module_bindings"
    by (simp add: dispatch_params_def dispatch_locals_def class_bindings_def
        module_bindings_def module_namespace_def)
  have "fstring_template w = Inl (NameError ''message'')"
    by (simp add: fstring_template_def as_written_unbound [OF assms])
  from dispatch_template_raises [OF this, of q s] names show ?thesis
    by (simp add: outcome_def calls_def)
qed

theorem message_is_unbound_as_written_witness:
  "as_written env_written
   \<and> outcome env_written ''GET /flow'' state0 = Inl (NameError ''message'')
   \<and> calls env_written ''GET /flow'' state0 = [Construct (PolicyEvaluator 100 ''deny'')]"
proof -
  have a: "as_written env_written"
    by (simp add: as_written_def env_written_def module_bindings_def module_namespace_def
        dom_map_of_conv_image_fst)
  from a message_is_unbound_as_written [OF a, of "''GET /flow''" state0]
  show ?thesis by (simp add: state0_def)
qed

text \<open>
  A text without a double quote, a backslash or a line break is read back whole.
\<close>

lemma scan_literal_plain:
  "CHR 0x22 \<notin> set m \<Longrightarrow> CHR 0x5C \<notin> set m \<Longrightarrow> CHR 0x0A \<notin> set m \<Longrightarrow> CHR 0x0D \<notin> set m \<Longrightarrow>
   scan_literal (m @ CHR 0x22 # rest) = Some (m, rest)"
  by (induction m) auto

text \<open>
  C4, as amended. For every message that holds no double quote, no backslash and no line
  break, the template is the call of \<^verbatim>\<open>ak_message\<close> on the literal that is the message,
  followed by \<^verbatim>\<open>return False\<close>: the message is data.
\<close>

theorem plain_message_is_data:
  assumes "CHR 0x22 \<notin> set m" and "CHR 0x5C \<notin> set m"
    and "CHR 0x0A \<notin> set m" and "CHR 0x0D \<notin> set m"
  shows "message_is_data m"
proof -
  have "template_of m = ''ak_message(\"'' @ (m @ CHR 0x22 # '');return False'')"
    by (simp add: template_of_def)
  then have "string_argument (template_of m) = scan_literal (m @ CHR 0x22 # '');return False'')"
    by (simp add: string_argument_def)
  with scan_literal_plain [OF assms] show ?thesis
    by (simp add: message_is_data_def)
qed

theorem plain_message_is_data_witness:
  "CHR 0x22 \<notin> set ''Access denied'' \<and> CHR 0x5C \<notin> set ''Access denied''
   \<and> CHR 0x0A \<notin> set ''Access denied'' \<and> CHR 0x0D \<notin> set ''Access denied''
   \<and> message_is_data ''Access denied''"
proof -
  have a: "CHR 0x22 \<notin> set ''Access denied''" by simp
  have b: "CHR 0x5C \<notin> set ''Access denied''" by simp
  have c: "CHR 0x0A \<notin> set ''Access denied''" by simp
  have d: "CHR 0x0D \<notin> set ''Access denied''" by simp
  from a b c d plain_message_is_data [OF a b c d] show ?thesis by simp
qed

text \<open>
  The claim as stated includes messages with a double quote. The template does not
  escape it: in the message below the quote closes the literal after \<^verbatim>\<open>x\<close>, and the rest
  of the message is source text, a second call before \<^verbatim>\<open>return False\<close>. A message that
  is one backslash escapes the quote that the template writes, and a message that is one
  line break ends the line inside the literal: in both the literal is not closed.
\<close>

theorem quote_in_message_ends_literal:
  "\<not> message_is_data ''x\");evil(\"''
   \<and> template_of ''x\");evil(\"'' = ''ak_message(\"x\");evil(\"\");return False''
   \<and> string_argument (template_of ''x\");evil(\"'') = Some (''x'', '');evil(\"\");return False'')
   \<and> string_argument (template_of [CHR 0x5C]) = None
   \<and> string_argument (template_of [CHR 0x0A]) = None"
  by (simp add: message_is_data_def string_argument_def template_of_def)

text \<open>
  C5, as amended. When the evaluation succeeds, the value it returns is discarded: two
  collaborators that differ only in what \<^verbatim>\<open>evaluate\<close> returns give the same invocation,
  the same outcome and the same final state, and its last call is \<^verbatim>\<open>stage_invalid\<close>.
\<close>

theorem evaluate_result_is_discarded:
  assumes "fstring_template w = Inr t"
    and "evaluate w ''deny'' t = Inr x"
    and "evaluate w' ''deny'' t = Inr x'"
    and "w' = w\<lparr>evaluate := evaluate w'\<rparr>"
  shows "dispatch w' q s = dispatch w q s
    \<and> last (calls w q s) = StageInvalid (executor (self s))"
proof -
  obtain v where v: "load_global w ''message'' = Inr v"
    using fstring_template_Inr [OF assms(1)] by blast
  have g: "globals w' = globals w"
    by (subst assms(4)) simp
  have b: "builtins w' = builtins w"
    by (subst assms(4)) simp
  have f: "obj_format w' = obj_format w"
    by (subst assms(4)) simp
  have si: "stage_invalid w' = stage_invalid w"
    by (subst assms(4)) simp
  have lg: "load_global w' = load_global w"
    by (rule ext) (simp add: load_global_def g b split: option.splits)
  have pf: "py_format w' = py_format w"
  proof (rule ext)
    fix u show "py_format w' u = py_format w u" by (cases u) (simp_all add: f)
  qed
  have t': "fstring_template w' = Inr t"
    using assms(1) by (simp add: fstring_template_def lg pf cong: sum.case_cong)
  have v': "load_global w' ''message'' = Inr v"
    using v by (simp add: lg)
  from dispatch_evaluate_returns [OF assms(1) v assms(2), of q s]
    dispatch_evaluate_returns [OF t' v' assms(3), of q s]
  show ?thesis by (simp add: si calls_def)
qed

theorem evaluate_result_is_discarded_witness:
  "dispatch (env_bound (PyStr ''Access denied'') (Inr (PyBool True))) ''GET /flow'' state0
     = dispatch (env_bound (PyStr ''Access denied'') (Inr (PyBool False))) ''GET /flow'' state0
   \<and> last (calls (env_bound (PyStr ''Access denied'') (Inr (PyBool False))) ''GET /flow'' state0)
     = StageInvalid 10"
proof -
  let ?w = "env_bound (PyStr ''Access denied'') (Inr (PyBool False))"
  let ?w' = "env_bound (PyStr ''Access denied'') (Inr (PyBool True))"
  have a: "fstring_template ?w = Inr (template_of ''Access denied'')"
    by (simp add: example_defs)
  have b: "evaluate ?w ''deny'' (template_of ''Access denied'') = Inr (PyBool False)"
    by (simp add: example_defs)
  have c: "evaluate ?w' ''deny'' (template_of ''Access denied'') = Inr (PyBool True)"
    by (simp add: example_defs)
  have d: "?w' = ?w\<lparr>evaluate := evaluate ?w'\<rparr>"
    by (simp add: env_bound_def env_written_def)
  from evaluate_result_is_discarded [OF a b c d, of "''GET /flow''" state0]
  show ?thesis by (simp add: state0_def)
qed

text \<open>
  The claim as stated makes the decision depend on the returned value. With \<^verbatim>\<open>True\<close>
  and with \<^verbatim>\<open>False\<close> the invocation makes the same calls and marks the stage invalid.
\<close>

theorem stage_invalid_whatever_evaluate_returns:
  "outcome (env_bound (PyStr ''Access denied'') (Inr (PyBool True))) ''GET /flow'' state0
     = Inr (HttpResponse 200 ''stage invalid'')
   \<and> outcome (env_bound (PyStr ''Access denied'') (Inr (PyBool False))) ''GET /flow'' state0
     = Inr (HttpResponse 200 ''stage invalid'')
   \<and> calls (env_bound (PyStr ''Access denied'') (Inr (PyBool True))) ''GET /flow'' state0
     = calls (env_bound (PyStr ''Access denied'') (Inr (PyBool False))) ''GET /flow'' state0
   \<and> last (calls (env_bound (PyStr ''Access denied'') (Inr (PyBool True))) ''GET /flow'' state0)
     = StageInvalid 10"
  by (simp add: outcome_def calls_def run_defs example_defs)

text \<open>
  C6. The claim has every invocation construct the evaluator, build the template, run
  the evaluator and call the executor, in this order and once each. With the module as
  the file writes it, an invocation makes one call, the construction of the evaluator:
  the template is not built, nothing is evaluated and the executor is not called.
\<close>

theorem steps_cut_short_as_written:
  assumes "as_written w"
  shows "fstring_template w = Inl (NameError ''message'')
    \<and> length (calls w q s) = 1
    \<and> (\<forall>ev t. Evaluate ev t \<notin> set (calls w q s))
    \<and> (\<forall>ex. StageInvalid ex \<notin> set (calls w q s))"
proof -
  have t: "fstring_template w = Inl (NameError ''message'')"
    by (simp add: fstring_template_def as_written_unbound [OF assms])
  from dispatch_template_raises [OF t, of q s] t show ?thesis
    by (simp add: calls_def)
qed

theorem steps_cut_short_as_written_witness:
  "as_written env_written
   \<and> fstring_template env_written = Inl (NameError ''message'')
   \<and> length (calls env_written ''GET /flow'' state0) = 1
   \<and> (\<forall>ev t. Evaluate ev t \<notin> set (calls env_written ''GET /flow'' state0))
   \<and> (\<forall>ex. StageInvalid ex \<notin> set (calls env_written ''GET /flow'' state0))"
proof -
  have a: "as_written env_written"
    by (simp add: as_written_def env_written_def module_bindings_def module_namespace_def
        dom_map_of_conv_image_fst)
  from a steps_cut_short_as_written [OF a, of "''GET /flow''" state0]
  show ?thesis by simp
qed

text \<open>
  Where \<^verbatim>\<open>message\<close> is bound and formatted, the steps of the claim are made in its order,
  once each, with the evaluator of the spec.
\<close>

lemma steps_in_order_when_message_bound:
  assumes "evaluate w = spec_evaluate run"
    and "load_global w ''message'' = Inr v"
    and "py_format w v = Inr m"
  shows "calls w q s =
     [Construct (PolicyEvaluator (next_id s) ''deny''),
      Evaluate (PolicyEvaluator (next_id s) ''deny'') (template_of m)]
     @ (case evaluate w ''deny'' (template_of m) of
          Inl e \<Rightarrow> [LogWarning (logger (self s)) (PyStr (failed_to_evaluate (template_of m))) (Some e)]
        | Inr x \<Rightarrow> [])
     @ [LogWarning (logger (self s)) v None, StageInvalid (executor (self s))]"
proof -
  have t: "fstring_template w = Inr (template_of m)"
    by (simp add: fstring_template_def assms(2) assms(3))
  show ?thesis
  proof (cases "evaluate w ''deny'' (template_of m)")
    case (Inl e)
    with assms(1) have "spec_evaluate run ''deny'' (template_of m) = Inl e"
      by simp
    then have p: "isinstance e ''PolicyException''"
      by (rule spec_evaluate_raises_policy_exception)
    from dispatch_evaluate_caught [OF t assms(2) Inl p, of q s] Inl show ?thesis
      by (simp add: calls_def)
  next
    case (Inr x)
    from dispatch_evaluate_returns [OF t assms(2) Inr, of q s] Inr show ?thesis
      by (simp add: calls_def)
  qed
qed



text \<open>
  C8. An invocation leaves the attributes of the view as they were. It constructs an
  evaluator of its own, under an identity that was free, and every evaluation it makes
  is made on that evaluator with the template built in this invocation. A second
  invocation on the state the first one left ends as the first one did, and makes the
  calls it would make had the first one only used up one identity.
\<close>

theorem dispatch_keeps_no_state:
  fixes q q' :: 'q
  shows "self (snd (dispatch w q s)) = self s
    \<and> next_id (snd (dispatch w q s)) = Suc (next_id s)
    \<and> hd (calls w q s) = Construct (PolicyEvaluator (next_id s) ''deny'')
    \<and> (\<forall>ev t. Evaluate ev t \<in> set (calls w q s) \<longrightarrow>
          ev = PolicyEvaluator (next_id s) ''deny'' \<and> fstring_template w = Inr t)
    \<and> outcome w q' (snd (dispatch w q s)) = outcome w q s
    \<and> calls w q' (snd (dispatch w q s)) = calls w q' (s\<lparr>next_id := Suc (next_id s)\<rparr>)"
proof (cases "fstring_template w")
  case (Inl e)
  note d = dispatch_template_raises [OF Inl, where ?'b = 'q]
  show ?thesis by (simp add: d Inl outcome_def calls_def)
next
  case (Inr t)
  then obtain v where v: "load_global w ''message'' = Inr v"
    using fstring_template_Inr by blast
  show ?thesis
  proof (cases "evaluate w ''deny'' t")
    case ret: (Inr x)
    note d = dispatch_evaluate_returns [OF Inr v ret, where ?'b = 'q]
    show ?thesis by (simp add: d Inr outcome_def calls_def)
  next
    case (Inl e)
    show ?thesis
    proof (cases "isinstance e ''PolicyException''")
      case True
      note d = dispatch_evaluate_caught [OF Inr v Inl True, where ?'b = 'q]
      show ?thesis by (simp add: d Inr outcome_def calls_def)
    next
      case False
      note d = dispatch_evaluate_raises [OF Inr Inl False, where ?'b = 'q]
      show ?thesis by (simp add: d Inr outcome_def calls_def)
    qed
  qed
qed

theorem dispatch_keeps_no_state_witness:
  "self (snd (dispatch (env_bound (PyStr ''Access denied'') (Inr (PyBool False))) ''GET /flow'' state0))
     = \<lparr>executor = 10, logger = 11\<rparr>
   \<and> next_id (snd (dispatch (env_bound (PyStr ''Access denied'') (Inr (PyBool False))) ''GET /flow'' state0))
     = 101
   \<and> outcome (env_bound (PyStr ''Access denied'') (Inr (PyBool False))) ''GET /again''
       (snd (dispatch (env_bound (PyStr ''Access denied'') (Inr (PyBool False))) ''GET /flow'' state0))
     = Inr (HttpResponse 200 ''stage invalid'')
   \<and> calls (env_bound (PyStr ''Access denied'') (Inr (PyBool False))) ''GET /again''
       (snd (dispatch (env_bound (PyStr ''Access denied'') (Inr (PyBool False))) ''GET /flow'' state0))
     = [Construct (PolicyEvaluator 101 ''deny''),
        Evaluate (PolicyEvaluator 101 ''deny'') (template_of ''Access denied''),
        LogWarning 11 (PyStr ''Access denied'') None,
        StageInvalid 10]"
proof -
  let ?w = "env_bound (PyStr ''Access denied'') (Inr (PyBool False))"
  have a: "outcome ?w ''GET /flow'' state0 = Inr (HttpResponse 200 ''stage invalid'')"
    by (simp add: outcome_def run_defs example_defs)
  have b: "calls ?w ''GET /again'' (state0\<lparr>next_id := Suc (next_id state0)\<rparr>)
     = [Construct (PolicyEvaluator 101 ''deny''),
        Evaluate (PolicyEvaluator 101 ''deny'') (template_of ''Access denied''),
        LogWarning 11 (PyStr ''Access denied'') None,
        StageInvalid 10]"
    by (simp add: calls_def run_defs example_defs)
  from a b dispatch_keeps_no_state [of ?w "''GET /flow''" state0 "''GET /again''"]
  show ?thesis by (simp add: state0_def)
qed

text \<open>
  C9. An exception that is no \<^verbatim>\<open>PolicyException\<close>, raised while the template is built or
  by \<^verbatim>\<open>evaluate\<close>, leaves \<^verbatim>\<open>dispatch\<close> as it is: the invocation logs no warning and does
  not call \<^verbatim>\<open>stage_invalid\<close>.
\<close>

theorem other_exceptions_propagate:
  assumes "\<not> isinstance e ''PolicyException''"
    and "fstring_template w = Inl e
         \<or> (\<exists>t. fstring_template w = Inr t \<and> evaluate w ''deny'' t = Inl e)"
  shows "outcome w q s = Inl e
    \<and> (\<forall>lg msg cause. LogWarning lg msg cause \<notin> set (calls w q s))
    \<and> (\<forall>ex. StageInvalid ex \<notin> set (calls w q s))"
  using assms(2)
proof
  assume "fstring_template w = Inl e"
  from dispatch_template_raises [OF this, of q s] show ?thesis
    by (simp add: outcome_def calls_def)
next
  assume "\<exists>t. fstring_template w = Inr t \<and> evaluate w ''deny'' t = Inl e"
  then obtain t where t: "fstring_template w = Inr t" and ev: "evaluate w ''deny'' t = Inl e"
    by blast
  from dispatch_evaluate_raises [OF t ev assms(1), of q s] show ?thesis
    by (simp add: outcome_def calls_def)
qed

theorem other_exceptions_propagate_witness:
  "outcome env_written ''GET /flow'' state0 = Inl (NameError ''message'')
   \<and> (\<forall>lg msg cause. LogWarning lg msg cause \<notin> set (calls env_written ''GET /flow'' state0))
   \<and> (\<forall>ex. StageInvalid ex \<notin> set (calls env_written ''GET /flow'' state0))
   \<and> outcome (env_bound (PyStr ''Access denied'') (Inl (KeyError ''user''))) ''GET /flow'' state0
       = Inl (KeyError ''user'')
   \<and> (\<forall>lg msg cause. LogWarning lg msg cause
         \<notin> set (calls (env_bound (PyStr ''Access denied'') (Inl (KeyError ''user''))) ''GET /flow'' state0))
   \<and> (\<forall>ex. StageInvalid ex
         \<notin> set (calls (env_bound (PyStr ''Access denied'') (Inl (KeyError ''user''))) ''GET /flow'' state0))"
proof -
  let ?w = "env_bound (PyStr ''Access denied'') (Inl (KeyError ''user''))"
  have a: "\<not> isinstance (NameError ''message'') ''PolicyException''"
    by (simp add: isinstance_def NameError_def)
  have b: "fstring_template env_written = Inl (NameError ''message'')
           \<or> (\<exists>t. fstring_template env_written = Inr t
                 \<and> evaluate env_written ''deny'' t = Inl (NameError ''message''))"
    by (simp add: fstring_template_def load_global_def env_written_def module_namespace_def)
  have c: "\<not> isinstance (KeyError ''user'') ''PolicyException''"
    by (simp add: isinstance_def KeyError_def)
  have d: "fstring_template ?w = Inl (KeyError ''user'')
           \<or> (\<exists>t. fstring_template ?w = Inr t \<and> evaluate ?w ''deny'' t = Inl (KeyError ''user''))"
    by (simp add: fstring_template_def load_global_def env_bound_def env_written_def)
  from other_exceptions_propagate [OF a b, of "''GET /flow''" state0]
    other_exceptions_propagate [OF c d, of "''GET /flow''" state0]
  show ?thesis by simp
qed

text \<open>
  What the executor's callback does has no part in the lookup of \<^verbatim>\<open>message\<close> or in the
  template.
\<close>

lemma load_global_stage_invalid:
  "load_global (w\<lparr>stage_invalid := r\<rparr>) n = load_global w n"
  by (simp add: load_global_def split: option.splits)

lemma py_format_stage_invalid:
  "py_format (w\<lparr>stage_invalid := r\<rparr>) v = py_format w v"
  by (cases v) simp_all

lemma fstring_template_stage_invalid:
  "fstring_template (w\<lparr>stage_invalid := r\<rparr>) = fstring_template w"
  by (simp add: fstring_template_def load_global_stage_invalid py_format_stage_invalid
      cong: sum.case_cong)

text \<open>
  C10. \<^verbatim>\<open>dispatch\<close> does not read the request: two requests give the same invocation.
  Whatever the executor's callback answers to each, the calls and their arguments are the
  same, and the outcomes agree when the answers of the callback agree.
\<close>

theorem dispatch_ignores_request:
  "dispatch w q1 s = dispatch w q2 s
   \<and> calls (w\<lparr>stage_invalid := r1\<rparr>) q1 s = calls (w\<lparr>stage_invalid := r2\<rparr>) q2 s
   \<and> (r1 = r2 \<longrightarrow>
        outcome (w\<lparr>stage_invalid := r1\<rparr>) q1 s = outcome (w\<lparr>stage_invalid := r2\<rparr>) q2 s)"
proof -
  have same: "dispatch u q1 s = dispatch u q2 s" for u :: "'a env"
    by (simp add: dispatch_def)
  have trace: "calls (w\<lparr>stage_invalid := r1\<rparr>) q1 s = calls (w\<lparr>stage_invalid := r2\<rparr>) q2 s"
  proof (cases "fstring_template w")
    case (Inl e)
    then have "\<And>r. fstring_template (w\<lparr>stage_invalid := r\<rparr>) = Inl e"
      by (simp add: fstring_template_stage_invalid)
    note d = dispatch_template_raises [OF this]
    show ?thesis by (simp add: d calls_def)
  next
    case (Inr t)
    then have t: "\<And>r. fstring_template (w\<lparr>stage_invalid := r\<rparr>) = Inr t"
      by (simp add: fstring_template_stage_invalid)
    obtain v where "load_global w ''message'' = Inr v"
      using fstring_template_Inr [OF Inr] by blast
    then have v: "\<And>r. load_global (w\<lparr>stage_invalid := r\<rparr>) ''message'' = Inr v"
      by (simp add: load_global_stage_invalid)
    show ?thesis
    proof (cases "evaluate w ''deny'' t")
      case ok: (Inr x)
      then have "\<And>r. evaluate (w\<lparr>stage_invalid := r\<rparr>) ''deny'' t = Inr x" by simp
      note d = dispatch_evaluate_returns [OF t v this]
      show ?thesis by (simp add: d calls_def)
    next
      case (Inl e)
      then have e: "\<And>r. evaluate (w\<lparr>stage_invalid := r\<rparr>) ''deny'' t = Inl e" by simp
      show ?thesis
      proof (cases "isinstance e ''PolicyException''")
        case True
        note d = dispatch_evaluate_caught [OF t v e True]
        show ?thesis by (simp add: d calls_def)
      next
        case False
        note d = dispatch_evaluate_raises [OF t e False]
        show ?thesis by (simp add: d calls_def)
      qed
    qed
  qed
  from same [of w] have "dispatch w q1 s = dispatch w q2 s" .
  moreover from same [of "w\<lparr>stage_invalid := r2\<rparr>"]
  have "outcome (w\<lparr>stage_invalid := r2\<rparr>) q1 s = outcome (w\<lparr>stage_invalid := r2\<rparr>) q2 s"
    by (simp only: outcome_def)
  ultimately show ?thesis using trace by blast
qed

theorem dispatch_ignores_request_witness:
  "dispatch (env_bound (PyStr ''Access denied'') (Inr (PyBool False))) ''GET /flow'' state0
     = dispatch (env_bound (PyStr ''Access denied'') (Inr (PyBool False))) ''POST /flow?next=/admin'' state0
   \<and> calls ((env_bound (PyStr ''Access denied'') (Inr (PyBool False)))
              \<lparr>stage_invalid := Inr (HttpResponse 200 ''a'')\<rparr>) ''GET /flow'' state0
     = calls ((env_bound (PyStr ''Access denied'') (Inr (PyBool False)))
              \<lparr>stage_invalid := Inr (HttpResponse 302 ''b'')\<rparr>) ''POST /flow?next=/admin'' state0
   \<and> outcome ((env_bound (PyStr ''Access denied'') (Inr (PyBool False)))
              \<lparr>stage_invalid := Inr (HttpResponse 200 ''a'')\<rparr>) ''GET /flow'' state0
     = outcome ((env_bound (PyStr ''Access denied'') (Inr (PyBool False)))
              \<lparr>stage_invalid := Inr (HttpResponse 200 ''a'')\<rparr>) ''POST /flow?next=/admin'' state0"
  using dispatch_ignores_request
      [of "env_bound (PyStr ''Access denied'') (Inr (PyBool False))" "''GET /flow''" state0
        "''POST /flow?next=/admin''" "Inr (HttpResponse 200 ''a'')" "Inr (HttpResponse 302 ''b'')"]
    dispatch_ignores_request
      [of "env_bound (PyStr ''Access denied'') (Inr (PyBool False))" "''GET /flow''" state0
        "''POST /flow?next=/admin''" "Inr (HttpResponse 200 ''a'')" "Inr (HttpResponse 200 ''a'')"]
  by simp

end
